theory Spec2Isabelle
  imports Main
begin

section \<open>JavaScript values used by the plugin\<close>

text \<open>
  The development embeds \<^verbatim>\<open>src/index.js\<close>, the class \<^verbatim>\<open>UglifyEsPlugin\<close>: its
  constructor and the methods \<^verbatim>\<open>_compile\<close>, \<^verbatim>\<open>_processFile\<close>,
  \<^verbatim>\<open>_processExtractComments\<close>, \<^verbatim>\<open>_processSourceMap\<close>, \<^verbatim>\<open>_processExeption\<close> and
  \<^verbatim>\<open>_writeExtractedComments\<close>. The method \<^verbatim>\<open>apply\<close> only registers \<^verbatim>\<open>_compile\<close> with
  the host and is not embedded.

  Thrown values are error objects; the handler of the plugin reads their properties
  \<^verbatim>\<open>line\<close>, \<^verbatim>\<open>col\<close>, \<^verbatim>\<open>message\<close>, \<^verbatim>\<open>msg\<close> and \<^verbatim>\<open>stack\<close>, each of which may be
  missing (\<open>None\<close> is \<^verbatim>\<open>undefined\<close>). A line is truthy when it is present and not zero,
  a string when it is present and not empty.
\<close>

record js_error =
  e_line :: "nat option"
  e_col :: "nat option"
  e_message :: "string option"
  e_msg :: "string option"
  e_stack :: "string option"

text \<open>
  The errors the engine itself raises. Reading an identifier that no scope binds raises a
  ReferenceError; reading a property of \<^verbatim>\<open>undefined\<close>, or calling something that is not
  a function, raises a TypeError. The stack text is modelled by its first line (the frames
  below it depend on the engine).
\<close>

definition ReferenceError :: "string \<Rightarrow> js_error" where
  "ReferenceError x =
     \<lparr>e_line = None, e_col = None,
      e_message = Some (x @ '' is not defined''), e_msg = None,
      e_stack = Some (''ReferenceError: '' @ x @ '' is not defined'')\<rparr>"

definition TypeError :: "string \<Rightarrow> js_error" where
  "TypeError m =
     \<lparr>e_line = None, e_col = None, e_message = Some m, e_msg = None,
      e_stack = Some (''TypeError: '' @ m)\<rparr>"

text \<open>Truthiness of the values the code tests.\<close>

definition truthy_str :: "string option \<Rightarrow> bool" where
  "truthy_str v = (case v of None \<Rightarrow> False | Some s \<Rightarrow> s \<noteq> [])"

text \<open>String conversion, as \<^verbatim>\<open>+\<close> on a string does it.\<close>

definition digit :: "nat \<Rightarrow> char" where
  "digit d = ''0123456789'' ! d"

fun show_nat :: "nat \<Rightarrow> string" where
  "show_nat n = (if n < 10 then [digit n] else show_nat (n div 10) @ [digit (n mod 10)])"

declare show_nat.simps [simp del]

definition str_num :: "nat option \<Rightarrow> string" where
  "str_num v = (case v of None \<Rightarrow> ''undefined'' | Some n \<Rightarrow> show_nat n)"

definition str_str :: "string option \<Rightarrow> string" where
  "str_str v = (case v of None \<Rightarrow> ''undefined'' | Some s \<Rightarrow> s)"

text \<open>A position of the original source; \<open>None\<close> is \<^verbatim>\<open>null\<close>.\<close>

definition str_null :: "nat option \<Rightarrow> string" where
  "str_null v = (case v of None \<Rightarrow> ''null'' | Some n \<Rightarrow> show_nat n)"

abbreviation NL :: string where
  "NL \<equiv> [CHR 0x0A]"

text \<open>\<^verbatim>\<open>Array.prototype.join\<close> on an array of strings.\<close>

fun join :: "string \<Rightarrow> string list \<Rightarrow> string" where
  "join sep [] = []"
| "join sep [x] = x"
| "join sep (x # y # ys) = x @ sep @ join sep (y # ys)"


section \<open>Regular expressions\<close>

text \<open>
  \<^verbatim>\<open>RegExp\<close> is a built-in of the language. A fragment of its pattern language is given
  an executable semantics here: literal characters, identity escapes of syntax characters,
  the anchors \<^verbatim>\<open>^\<close> and \<^verbatim>\<open>$\<close>, a star after a character, and alternation with
  \<^verbatim>\<open>|\<close>, over ASCII text. \<^verbatim>\<open>test\<close> searches: it succeeds when the pattern matches at
  some position. Every other pattern is handed to the host engine, a parameter.
\<close>

datatype re =
    RNone
  | REmpty
  | RChar char
  | RBol
  | REol
  | RAlt re re
  | RSeq re re
  | RStar re

text \<open>
  \<open>nullable at_start at_end r\<close>: the pattern matches the empty string at a position that is
  the start of the input (or not) and its end (or not).
\<close>

fun nullable :: "bool \<Rightarrow> bool \<Rightarrow> re \<Rightarrow> bool" where
  "nullable b e RNone = False"
| "nullable b e REmpty = True"
| "nullable b e (RChar c) = False"
| "nullable b e RBol = b"
| "nullable b e REol = e"
| "nullable b e (RAlt r s) = (nullable b e r \<or> nullable b e s)"
| "nullable b e (RSeq r s) = (nullable b e r \<and> nullable b e s)"
| "nullable b e (RStar r) = True"

text \<open>The pattern that is left after one character, read at the start of the input or later.\<close>

fun deriv :: "bool \<Rightarrow> char \<Rightarrow> re \<Rightarrow> re" where
  "deriv b c RNone = RNone"
| "deriv b c REmpty = RNone"
| "deriv b c (RChar a) = (if a = c then REmpty else RNone)"
| "deriv b c RBol = RNone"
| "deriv b c REol = RNone"
| "deriv b c (RAlt r s) = RAlt (deriv b c r) (deriv b c s)"
| "deriv b c (RSeq r s) =
     (if nullable b False r then RAlt (RSeq (deriv b c r) s) (deriv b c s)
      else RSeq (deriv b c r) s)"
| "deriv b c (RStar r) = RSeq (deriv b c r) (RStar r)"

fun prefix_match :: "bool \<Rightarrow> re \<Rightarrow> string \<Rightarrow> bool" where
  "prefix_match b r [] = nullable b True r"
| "prefix_match b r (c # cs) = (nullable b False r \<or> prefix_match False (deriv b c r) cs)"

fun search :: "bool \<Rightarrow> re \<Rightarrow> string \<Rightarrow> bool" where
  "search b r [] = prefix_match b r []"
| "search b r (c # cs) = (prefix_match b r (c # cs) \<or> search False r cs)"

definition re_test :: "re \<Rightarrow> string \<Rightarrow> bool" where
  "re_test r s = search True r s"

text \<open>Reading a pattern of the fragment.\<close>

datatype tok = TChar char | TBol | TEol | TStar | TBar

definition syntax_char :: "char \<Rightarrow> bool" where
  "syntax_char c = (c \<in> set (''^$.*+?()[]{}|/'' @ [CHR 0x5C]))"

fun tokenize :: "string \<Rightarrow> tok list option" where
  "tokenize [] = Some []"
| "tokenize (c # cs) =
     (if c = CHR 0x5C then
        (case cs of
           [] \<Rightarrow> None
         | d # ds \<Rightarrow> if syntax_char d then map_option ((#) (TChar d)) (tokenize ds) else None)
      else if c = CHR ''^'' then map_option ((#) TBol) (tokenize cs)
      else if c = CHR ''$'' then map_option ((#) TEol) (tokenize cs)
      else if c = CHR ''*'' then map_option ((#) TStar) (tokenize cs)
      else if c = CHR ''|'' then map_option ((#) TBar) (tokenize cs)
      else if syntax_char c then None
      else map_option ((#) (TChar c)) (tokenize cs))"

fun seq_of :: "tok list \<Rightarrow> re option" where
  "seq_of [] = Some REmpty"
| "seq_of (TChar c # TStar # TStar # ts) = None"
| "seq_of (TChar c # TStar # ts) = map_option (RSeq (RStar (RChar c))) (seq_of ts)"
| "seq_of (TChar c # ts) = map_option (RSeq (RChar c)) (seq_of ts)"
| "seq_of (TBol # TStar # ts) = None"
| "seq_of (TBol # ts) = map_option (RSeq RBol) (seq_of ts)"
| "seq_of (TEol # TStar # ts) = None"
| "seq_of (TEol # ts) = map_option (RSeq REol) (seq_of ts)"
| "seq_of (TStar # ts) = None"
| "seq_of (TBar # ts) = None"

text \<open>The alternatives of a pattern: the token list cut at every bar.\<close>

fun alternatives :: "tok list \<Rightarrow> tok list \<Rightarrow> tok list list" where
  "alternatives acc [] = [rev acc]"
| "alternatives acc (TBar # ts) = rev acc # alternatives [] ts"
| "alternatives acc (t # ts) = alternatives (t # acc) ts"

fun alt_of :: "tok list list \<Rightarrow> re option" where
  "alt_of [] = Some RNone"
| "alt_of [a] = seq_of a"
| "alt_of (a # as) =
     (case seq_of a of
        None \<Rightarrow> None
      | Some r \<Rightarrow> map_option (RAlt r) (alt_of as))"

definition parse_re :: "string \<Rightarrow> re option" where
  "parse_re s = (case tokenize s of None \<Rightarrow> None | Some ts \<Rightarrow> alt_of (alternatives [] ts))"

text \<open>
  A regular-expression-like object is anything with a \<^verbatim>\<open>test\<close> method: a regular
  expression of the fragment, or an object of the host whose \<^verbatim>\<open>test\<close> is a function
  of the string (regular expressions with the flags \<^verbatim>\<open>g\<close> or \<^verbatim>\<open>y\<close>, whose \<^verbatim>\<open>test\<close>
  depends on \<^verbatim>\<open>lastIndex\<close>, are outside this model).
\<close>

datatype regex = Pattern re | TestObj "string \<Rightarrow> bool"

fun regex_test :: "regex \<Rightarrow> string \<Rightarrow> bool" where
  "regex_test (Pattern r) s = re_test r s"
| "regex_test (TestObj f) s = f s"

text \<open>
  \<^verbatim>\<open>new RegExp(s)\<close>: a pattern of the fragment is compiled here, any other pattern by the
  host engine, which raises a SyntaxError on a malformed one.
\<close>

definition new_RegExp :: "(string \<Rightarrow> js_error + (string \<Rightarrow> bool)) \<Rightarrow> string \<Rightarrow> js_error + regex" where
  "new_RegExp host s =
     (case parse_re s of
        Some r \<Rightarrow> Inr (Pattern r)
      | None \<Rightarrow> (case host s of Inl e \<Rightarrow> Inl e | Inr f \<Rightarrow> Inr (TestObj f)))"


section \<open>Comments and predicate specs\<close>

text \<open>The syntax-tree node handed to a comment predicate is opaque to the plugin.\<close>

type_synonym astnode = nat

record comment =
  c_type :: string
  c_value :: string

text \<open>A comment predicate may raise, as any call may.\<close>

type_synonym pred = "astnode \<Rightarrow> comment \<Rightarrow> js_error + bool"

text \<open>
  A predicate spec, by what \<^verbatim>\<open>typeof\<close> says of it: a boolean, a function, a string, a
  regular-expression-like object, or any other value (\<^verbatim>\<open>undefined\<close>, \<^verbatim>\<open>null\<close>, a
  number, an object with no \<^verbatim>\<open>test\<close> method).
\<close>

datatype spec = SBool bool | SFun pred | SStr string | SRegex regex | SOther

datatype filename_spec = FUndefined | FStr string | FFun "string \<Rightarrow> string"

datatype banner_spec = BUndefined | BFalse | BStr string | BFun "string \<Rightarrow> string"

text \<open>
  The object form of \<^verbatim>\<open>extractComments\<close>; \<open>condition = None\<close> when the object has no
  own property \<^verbatim>\<open>condition\<close>.
\<close>

record extract_object =
  condition :: "spec option"
  filename :: filename_spec
  banner :: banner_spec

datatype extract_spec =
    EUndefined
  | EBool bool
  | EStr string
  | ERegex regex
  | EObj extract_object

definition truthy_extract :: "extract_spec \<Rightarrow> bool" where
  "truthy_extract x =
     (case x of
        EUndefined \<Rightarrow> False
      | EBool b \<Rightarrow> b
      | EStr s \<Rightarrow> s \<noteq> []
      | ERegex r \<Rightarrow> True
      | EObj ob \<Rightarrow> True)"

text \<open>\<^verbatim>\<open>typeof x === 'string' || x instanceof RegExp\<close>\<close>

definition string_or_RegExp :: "extract_spec \<Rightarrow> bool" where
  "string_or_RegExp x = (case x of EStr s \<Rightarrow> True | ERegex r \<Rightarrow> True | _ \<Rightarrow> False)"

text \<open>\<^verbatim>\<open>Object.prototype.hasOwnProperty.call(x, "condition")\<close>\<close>

definition hasOwnProperty_condition :: "extract_spec \<Rightarrow> js_error + bool" where
  "hasOwnProperty_condition x =
     (case x of
        EUndefined \<Rightarrow> Inl (TypeError ''Cannot convert undefined or null to object'')
      | EObj ob \<Rightarrow> Inr (condition ob \<noteq> None)
      | _ \<Rightarrow> Inr False)"

text \<open>The properties \<^verbatim>\<open>x.condition\<close>, \<^verbatim>\<open>x.filename\<close> and \<^verbatim>\<open>x.banner\<close>.\<close>

definition condition_of :: "extract_spec \<Rightarrow> spec" where
  "condition_of x =
     (case x of
        EObj ob \<Rightarrow> (case condition ob of Some c \<Rightarrow> c | None \<Rightarrow> SOther)
      | _ \<Rightarrow> SOther)"

definition filename_of :: "extract_spec \<Rightarrow> js_error + filename_spec" where
  "filename_of x =
     (case x of
        EUndefined \<Rightarrow> Inl (TypeError ''Cannot read property filename of undefined'')
      | EObj ob \<Rightarrow> Inr (filename ob)
      | _ \<Rightarrow> Inr FUndefined)"

definition banner_of :: "extract_spec \<Rightarrow> js_error + banner_spec" where
  "banner_of x =
     (case x of
        EUndefined \<Rightarrow> Inl (TypeError ''Cannot read property banner of undefined'')
      | EObj ob \<Rightarrow> Inr (banner ob)
      | _ \<Rightarrow> Inr BUndefined)"

text \<open>The value of \<^verbatim>\<open>extractComments\<close> itself, used as a predicate spec.\<close>

definition spec_of_extract :: "extract_spec \<Rightarrow> spec" where
  "spec_of_extract x =
     (case x of
        EBool b \<Rightarrow> SBool b
      | EStr s \<Rightarrow> SStr s
      | ERegex r \<Rightarrow> SRegex r
      | _ \<Rightarrow> SOther)"


section \<open>Options\<close>

record output_options =
  oo_comments :: "spec option"
  oo_beautify :: "bool option"

record options =
  warningFilter :: "string \<Rightarrow> bool"
  sourceMap :: bool
  mangle :: bool
  toplevel :: bool
  comments :: spec
  beautify :: "bool option"
  output_opts :: "output_options option"
  extractComments :: extract_spec

text \<open>
  The constructor merges the caller's options over the defaults. The properties
  \<^verbatim>\<open>test\<close>, \<^verbatim>\<open>include\<close> and \<^verbatim>\<open>exclude\<close> are read by
  \<^verbatim>\<open>ModuleFilenameHelpers.matchObject\<close> only, which is a parameter below.
\<close>

record user_options =
  u_warningFilter :: "(string \<Rightarrow> bool) option"
  u_sourceMap :: "bool option"
  u_mangle :: "bool option"
  u_toplevel :: "bool option"
  u_comments :: "spec option"
  u_beautify :: "bool option"
  u_output :: "output_options option"
  u_extractComments :: "extract_spec option"

definition lit :: "string \<Rightarrow> re" where
  "lit s = foldr (\<lambda>c r. RSeq (RChar c) r) s REmpty"

text \<open>The default of \<^verbatim>\<open>comments\<close>: \<^verbatim>\<open>/^\**!|@preserve|@license/\<close>\<close>

definition default_comments :: regex where
  "default_comments =
     Pattern (RAlt (RSeq RBol (RSeq (RStar (RChar CHR ''*'')) (lit ''!'')))
             (RAlt (lit ''@preserve'') (lit ''@license'')))"

definition or_default :: "'a option \<Rightarrow> 'a \<Rightarrow> 'a" where
  "or_default v d = (case v of None \<Rightarrow> d | Some x \<Rightarrow> x)"

definition UglifyEsPlugin :: "user_options \<Rightarrow> options" where
  "UglifyEsPlugin u =
     \<lparr>warningFilter = or_default (u_warningFilter u) (\<lambda>w. True),
      sourceMap = or_default (u_sourceMap u) True,
      mangle = or_default (u_mangle u) True,
      toplevel = or_default (u_toplevel u) False,
      comments = or_default (u_comments u) (SRegex default_comments),
      beautify = u_beautify u,
      output_opts = u_output u,
      extractComments = or_default (u_extractComments u) EUndefined\<rparr>"


section \<open>Assets, the compilation and the collaborators\<close>

datatype smap = SourceMap string

text \<open>
  The sources of \<^verbatim>\<open>webpack-sources\<close>. A \<^verbatim>\<open>RawSource\<close> holds a text and has no map;
  \<open>RawSource_undefined\<close> is the object \<^verbatim>\<open>new RawSource(undefined)\<close>, whose
  \<^verbatim>\<open>source()\<close> is \<^verbatim>\<open>undefined\<close>. A \<^verbatim>\<open>ConcatSource\<close> holds children, strings or
  sources, and its text is the concatenation of theirs. Any other source of the host is
  given by its text, its map and whether it has the method \<^verbatim>\<open>sourceAndMap\<close>. A child
  is held by value: the plugin wraps only sources whose text never changes.
\<close>

datatype source =
    RawSource string
  | RawSource_undefined
  | ConcatSource "child list"
  | HostSource string "smap option" bool
and child = CStr string | CSrc source

text \<open>
  The text of a source as a \<^verbatim>\<open>ConcatSource\<close> sees it: it joins what its children
  return, and \<^verbatim>\<open>join\<close> adds nothing for \<^verbatim>\<open>undefined\<close>.
\<close>

fun source_text :: "source \<Rightarrow> string"
  and child_text :: "child \<Rightarrow> string" where
  "source_text (RawSource s) = s"
| "source_text RawSource_undefined = []"
| "source_text (ConcatSource cs) = concat (map child_text cs)"
| "source_text (HostSource s m b) = s"
| "child_text (CStr s) = s"
| "child_text (CSrc src) = source_text src"

text \<open>What the accessor \<^verbatim>\<open>source()\<close> returns; \<open>None\<close> is \<^verbatim>\<open>undefined\<close>.\<close>

definition source_value :: "source \<Rightarrow> string option" where
  "source_value src =
     (case src of
        RawSource_undefined \<Rightarrow> None
      | _ \<Rightarrow> Some (source_text src))"

text \<open>\<^verbatim>\<open>new RawSource(v)\<close> for a value that is a string or \<^verbatim>\<open>undefined\<close>.\<close>

definition new_RawSource :: "string option \<Rightarrow> source" where
  "new_RawSource v = (case v of None \<Rightarrow> RawSource_undefined | Some s \<Rightarrow> RawSource s)"

definition has_sourceAndMap :: "source \<Rightarrow> bool" where
  "has_sourceAndMap src = (case src of HostSource s m b \<Rightarrow> b | _ \<Rightarrow> True)"

text \<open>
  An asset is an object of the heap: a source and the property \<^verbatim>\<open>__UglifyJsPlugin\<close>,
  a reference to another object when it is set.
\<close>

type_synonym addr = nat

record obj =
  content :: source
  UglifyJsPlugin :: "addr option"

record orig_pos =
  op_source :: "string option"
  op_line :: "nat option"
  op_column :: "nat option"

text \<open>A \<^verbatim>\<open>SourceMapConsumer\<close>, by its method \<^verbatim>\<open>originalPositionFor\<close>.\<close>

type_synonym consumer = "nat \<Rightarrow> nat option \<Rightarrow> orig_pos"

record minify_options =
  m_mangle :: bool
  m_toplevel :: bool
  m_sourceMap :: bool

text \<open>
  What \<^verbatim>\<open>uglify.minify\<close> returns: an object whose properties \<^verbatim>\<open>code\<close> and
  \<^verbatim>\<open>error\<close> may each be missing. The minifier of \<^verbatim>\<open>uglify-es\<close> reports a failure
  in \<^verbatim>\<open>error\<close>, with no \<^verbatim>\<open>code\<close>, and returns; the plugin reads \<^verbatim>\<open>code\<close> only.
\<close>

record minify_result =
  r_code :: "string option"
  r_error :: "js_error option"

text \<open>
  The collaborators, parameters of the model: \<^verbatim>\<open>uglify.minify(input, opts)\<close>, called
  on a text or on \<^verbatim>\<open>undefined\<close>, which returns a result object or raises; the
  constructor of \<^verbatim>\<open>SourceMapConsumer\<close>;
  \<^verbatim>\<open>ModuleFilenameHelpers.matchObject\<close> applied to the options; the engine's
  \<^verbatim>\<open>RegExp\<close> for the patterns outside the fragment; the map a \<^verbatim>\<open>ConcatSource\<close>
  builds for its children.
\<close>

record lib =
  minify :: "string option \<Rightarrow> minify_options \<Rightarrow> js_error + minify_result"
  SourceMapConsumer :: "smap option \<Rightarrow> js_error + consumer"
  matchObject :: "string \<Rightarrow> bool"
  RegExp_host :: "string \<Rightarrow> js_error + (string \<Rightarrow> bool)"
  concat_map :: "child list \<Rightarrow> smap option"

definition source_map :: "lib \<Rightarrow> source \<Rightarrow> smap option" where
  "source_map l src =
     (case src of
        RawSource s \<Rightarrow> None
      | RawSource_undefined \<Rightarrow> None
      | ConcatSource cs \<Rightarrow> concat_map l cs
      | HostSource s m b \<Rightarrow> m)"

text \<open>
  The identifiers \<^verbatim>\<open>options\<close>, \<^verbatim>\<open>file\<close>, \<^verbatim>\<open>outputSource\<close> and
  \<^verbatim>\<open>requestShortener\<close> occur free in methods of the class: no parameter, local or
  module-level declaration binds them there, so each resolves in the global scope, and a
  read or (the class body being strict code) a write of one that the global scope does not
  bind raises a ReferenceError.
\<close>

record scope =
  g_options :: "options option"
  g_file :: "string option"
  g_outputSource :: "addr option"
  g_requestShortener :: "(string \<Rightarrow> string) option"

text \<open>The scope of the module as it is loaded: none of the four names is bound.\<close>

definition module_scope :: scope where
  "module_scope =
     \<lparr>g_options = None, g_file = None, g_outputSource = None, g_requestShortener = None\<rparr>"

text \<open>
  The calls to the collaborators and to the accessors of an asset, in order; the minifier
  is called on a text or on \<^verbatim>\<open>undefined\<close>.
\<close>

datatype event =
    Call_source addr
  | Call_sourceAndMap addr
  | Call_map addr
  | New_SourceMapConsumer "smap option"
  | Call_minify string
  | Call_minify_undefined

text \<open>
  The state: the compilation (\<^verbatim>\<open>assets\<close>, \<^verbatim>\<open>errors\<close>, \<^verbatim>\<open>warnings\<close>,
  \<^verbatim>\<open>additionalChunkAssets\<close>; an \<^verbatim>\<open>Error\<close> is kept as its message), the heap with the
  next free address, the global scope, \<^verbatim>\<open>uglify.AST_Node.warn_function\<close>, the record of
  calls, and the number of times the continuation of the hook was called.
\<close>

record world =
  assets :: "string \<rightharpoonup> addr"
  errors :: "string list"
  warnings :: "string list"
  additionalChunkAssets :: "string list"
  heap :: "addr \<Rightarrow> obj"
  next_addr :: addr
  globals :: scope
  warn_function :: nat
  trace :: "event list"
  callbacks :: nat

definition new_object :: "source \<Rightarrow> world \<Rightarrow> addr \<times> world" where
  "new_object src w =
     (next_addr w,
      w\<lparr>heap := (heap w)(next_addr w := \<lparr>content = src, UglifyJsPlugin = None\<rparr>),
        next_addr := Suc (next_addr w)\<rparr>)"

definition log :: "event list \<Rightarrow> world \<Rightarrow> world" where
  "log evs w = w\<lparr>trace := trace w @ evs\<rparr>"

definition minify_event :: "string option \<Rightarrow> event" where
  "minify_event input = (case input of None \<Rightarrow> Call_minify_undefined | Some s \<Rightarrow> Call_minify s)"


section \<open>The methods of the plugin\<close>

subsection \<open>\<^verbatim>\<open>_processExtractComments\<close>\<close>

record output_object =
  o_comments :: spec
  o_beautify :: "bool option"

record condition_pair =
  cond_preserve :: spec
  cond_extract :: spec

text \<open>
  The choice of the two conditions. The test of the first branch reads
  \<^verbatim>\<open>this._options\<close>; the right-hand side of its second assignment and the test of the
  second branch read the free identifier \<^verbatim>\<open>options\<close>.
\<close>

definition choose_conditions ::
  "scope \<Rightarrow> options \<Rightarrow> output_object \<Rightarrow> js_error + condition_pair" where
  "choose_conditions sc this_options out =
     (if string_or_RegExp (extractComments this_options) then
        (case g_options sc of
           None \<Rightarrow> Inl (ReferenceError ''options'')
         | Some opts \<Rightarrow>
             Inr \<lparr>cond_preserve = o_comments out, cond_extract = spec_of_extract (extractComments opts)\<rparr>)
      else
        (case g_options sc of
           None \<Rightarrow> Inl (ReferenceError ''options'')
         | Some opts \<Rightarrow>
             (case hasOwnProperty_condition (extractComments opts) of
                Inl e \<Rightarrow> Inl e
              | Inr has \<Rightarrow>
                  if has then
                    Inr \<lparr>cond_preserve = o_comments out,
                         cond_extract = condition_of (extractComments opts)\<rparr>
                  else
                    Inr \<lparr>cond_preserve = SBool False, cond_extract = o_comments out\<rparr>)))"

text \<open>
  The body of the loop that makes a function of each condition, a \<^verbatim>\<open>switch\<close> on
  \<^verbatim>\<open>typeof\<close>. In the default case \<^verbatim>\<open>regex.test\<close> is looked up when the function is
  called, and a value without that method raises then.
\<close>

definition ensure_function :: "lib \<Rightarrow> spec \<Rightarrow> js_error + pred" where
  "ensure_function l c =
     (case c of
        SBool b \<Rightarrow> Inr (\<lambda>astNode cm. Inr b)
      | SFun f \<Rightarrow> Inr f
      | SStr s \<Rightarrow>
          if s = ''all'' then Inr (\<lambda>astNode cm. Inr True)
          else
            (case new_RegExp (RegExp_host l) s of
               Inl e \<Rightarrow> Inl e
             | Inr regex \<Rightarrow> Inr (\<lambda>astNode cm. Inr (regex_test regex (c_value cm))))
      | SRegex regex \<Rightarrow> Inr (\<lambda>astNode cm. Inr (regex_test regex (c_value cm)))
      | SOther \<Rightarrow> Inr (\<lambda>astNode cm. Inl (TypeError ''regex.test is not a function'')))"

text \<open>
  The function stored in \<^verbatim>\<open>output.comments\<close>. It closes over the array
  \<^verbatim>\<open>extractedComments\<close>, which is passed and returned here.
\<close>

type_synonym visitor = "astnode \<Rightarrow> comment \<Rightarrow> string list \<Rightarrow> (js_error + bool) \<times> string list"

definition comm :: "comment \<Rightarrow> string" where
  "comm cm = (if c_type cm = ''comment2'' then ''/*'' @ c_value cm @ ''*/''
              else ''//'' @ c_value cm)"

definition output_comments :: "pred \<Rightarrow> pred \<Rightarrow> visitor" where
  "output_comments preserve_fn extract_fn astNode cm extractedComments =
     (case extract_fn astNode cm of
        Inl e \<Rightarrow> (Inl e, extractedComments)
      | Inr b \<Rightarrow>
          (let extractedComments' =
                 (if b then extractedComments @ [comm cm] else extractedComments)
           in (preserve_fn astNode cm, extractedComments')))"

text \<open>
  The method returns the array, still empty, and leaves the visitor in
  \<^verbatim>\<open>output.comments\<close>.
\<close>

definition processExtractComments ::
  "lib \<Rightarrow> scope \<Rightarrow> options \<Rightarrow> output_object \<Rightarrow> js_error + (string list \<times> visitor)" where
  "processExtractComments l sc this_options out =
     (case choose_conditions sc this_options out of
        Inl e \<Rightarrow> Inl e
      | Inr cond \<Rightarrow>
          (case ensure_function l (cond_preserve cond) of
             Inl e \<Rightarrow> Inl e
           | Inr preserve_fn \<Rightarrow>
               (case ensure_function l (cond_extract cond) of
                  Inl e \<Rightarrow> Inl e
                | Inr extract_fn \<Rightarrow> Inr ([], output_comments preserve_fn extract_fn))))"

text \<open>
  The minifier calls the visitor once for each comment in the order of the source, and
  stops at a call that raises.
\<close>

fun traverse :: "visitor \<Rightarrow> astnode \<Rightarrow> comment list \<Rightarrow> string list
                 \<Rightarrow> (js_error + bool list) \<times> string list" where
  "traverse v astNode [] sink = (Inr [], sink)"
| "traverse v astNode (cm # cms) sink =
     (case v astNode cm sink of
        (Inl e, sink') \<Rightarrow> (Inl e, sink')
      | (Inr keep, sink') \<Rightarrow>
          (case traverse v astNode cms sink' of
             (Inl e, sink'') \<Rightarrow> (Inl e, sink'')
           | (Inr keeps, sink'') \<Rightarrow> (Inr (keep # keeps), sink'')))"


subsection \<open>\<^verbatim>\<open>_processSourceMap\<close>\<close>

text \<open>
  The first \<^verbatim>\<open>if\<close> has no \<^verbatim>\<open>else\<close> and no \<^verbatim>\<open>return\<close>: the second statement runs
  whatever the option is, and assigns \<^verbatim>\<open>input\<close> again.
\<close>

definition processSourceMap ::
  "lib \<Rightarrow> options \<Rightarrow> addr \<Rightarrow> world \<Rightarrow> (js_error + string option) \<times> world" where
  "processSourceMap l this_options asset w =
     (let src = content (heap w asset);
          (input0, w1) =
             (if \<not> sourceMap this_options
              then (source_value src, log [Call_source asset] w)
              else (None, w));
          (inputSourceMap, input, w2) =
             (if has_sourceAndMap src
              then (source_map l src, source_value src, log [Call_sourceAndMap asset] w1)
              else (source_map l src, source_value src,
                    log [Call_map asset, Call_source asset] w1));
          w3 = log [New_SourceMapConsumer inputSourceMap] w2
      in (case SourceMapConsumer l inputSourceMap of
            Inl e \<Rightarrow> (Inl e, w3)
          | Inr sm \<Rightarrow> (Inr input, w3)))"


subsection \<open>\<^verbatim>\<open>_processExeption\<close>\<close>

definition push_error :: "string \<Rightarrow> world \<Rightarrow> world" where
  "push_error m w = w\<lparr>errors := errors w @ [m]\<rparr>"

definition processExeption ::
  "js_error \<Rightarrow> string \<Rightarrow> consumer option \<Rightarrow> world \<Rightarrow> js_error option \<times> world" where
  "processExeption err file srcMap w =
     (case e_line err of
        Some ln \<Rightarrow>
          if ln \<noteq> 0 then
            (let original = (case srcMap of
                               None \<Rightarrow> None
                             | Some sm \<Rightarrow> Some (sm ln (e_col err)))
             in case original of
                  Some pos \<Rightarrow>
                    if truthy_str (op_source pos) then
                      (case g_requestShortener (globals w) of
                         None \<Rightarrow> (Some (ReferenceError ''requestShortener''), w)
                       | Some shorten \<Rightarrow>
                           (None,
                            push_error
                              (file @ '' from UglifyJs'' @ NL @ str_str (e_message err) @ '' [''
                               @ shorten (str_str (op_source pos)) @ '':'' @ str_null (op_line pos)
                               @ '','' @ str_null (op_column pos) @ ''][''
                               @ file @ '':'' @ show_nat ln @ '','' @ str_num (e_col err) @ '']'') w))
                    else
                      (None,
                       push_error
                         (file @ '' from UglifyJs'' @ NL @ str_str (e_message err) @ '' [''
                          @ file @ '':'' @ show_nat ln @ '','' @ str_num (e_col err) @ '']'') w)
                | None \<Rightarrow>
                    (None,
                     push_error
                       (file @ '' from UglifyJs'' @ NL @ str_str (e_message err) @ '' [''
                        @ file @ '':'' @ show_nat ln @ '','' @ str_num (e_col err) @ '']'') w))
          else if truthy_str (e_msg err) then
            (None, push_error (file @ '' from UglifyJs'' @ NL @ str_str (e_msg err)) w)
          else
            (None, push_error (file @ '' from UglifyJs'' @ NL @ str_str (e_stack err)) w)
      | None \<Rightarrow>
          if truthy_str (e_msg err) then
            (None, push_error (file @ '' from UglifyJs'' @ NL @ str_str (e_msg err)) w)
          else
            (None, push_error (file @ '' from UglifyJs'' @ NL @ str_str (e_stack err)) w))"


subsection \<open>\<^verbatim>\<open>_writeExtractedComments\<close>\<close>

text \<open>
  The name of the sidecar. In \<^verbatim>\<open>filename || `${file}.LICENSE`\<close> the template is
  evaluated, and \<^verbatim>\<open>file\<close> read, only when the configured name is missing or empty; a
  configured function is then called with \<^verbatim>\<open>file\<close>.
\<close>

definition resolve_commentsFile :: "scope \<Rightarrow> filename_spec \<Rightarrow> js_error + string" where
  "resolve_commentsFile sc fn =
     (let dflt = (case g_file sc of
                    None \<Rightarrow> Inl (ReferenceError ''file'')
                  | Some file \<Rightarrow> Inr (file @ ''.LICENSE''))
      in case fn of
           FStr s \<Rightarrow> if s \<noteq> [] then Inr s else dflt
         | FFun f \<Rightarrow>
             (case g_file sc of
                None \<Rightarrow> Inl (ReferenceError ''file'')
              | Some file \<Rightarrow> Inr (f file))
         | FUndefined \<Rightarrow> dflt)"

text \<open>
  The sidecar asset: installed when the name is new, extended in place when the asset
  there is a \<^verbatim>\<open>ConcatSource\<close>, and otherwise replaced by a new \<^verbatim>\<open>ConcatSource\<close> of the
  old asset, a newline and the new source.
\<close>

definition put_comments :: "string \<Rightarrow> addr \<Rightarrow> world \<Rightarrow> world" where
  "put_comments commentsFile commentsSource w =
     (case assets w commentsFile of
        Some existing \<Rightarrow>
          (case content (heap w existing) of
             ConcatSource cs \<Rightarrow>
               w\<lparr>heap := (heap w)(existing := (heap w existing)
                     \<lparr>content := ConcatSource
                        (cs @ [CStr NL, CSrc (content (heap w commentsSource))])\<rparr>)\<rparr>
           | other \<Rightarrow>
               (let (c, w') = new_object
                      (ConcatSource [CSrc other, CStr NL, CSrc (content (heap w commentsSource))]) w
                in w'\<lparr>assets := (assets w')(commentsFile \<mapsto> c)\<rparr>))
      | None \<Rightarrow> w\<lparr>assets := (assets w)(commentsFile \<mapsto> commentsSource)\<rparr>)"

text \<open>
  The banner. The assignment to \<^verbatim>\<open>outputSource\<close>, and the read of it on its right-hand
  side, are of a free identifier. The template of the source text ends with a newline
  and a double quote.
\<close>

definition add_banner :: "options \<Rightarrow> string \<Rightarrow> world \<Rightarrow> js_error option \<times> world" where
  "add_banner this_options commentsFile w =
     (case banner_of (extractComments this_options) of
        Inl e \<Rightarrow> (Some e, w)
      | Inr b \<Rightarrow>
          (case b of
             BFalse \<Rightarrow> (None, w)
           | _ \<Rightarrow>
               (let dflt = ''For license information please see '' @ commentsFile;
                    banner_text =
                      (case b of
                         BStr s \<Rightarrow> if s \<noteq> [] then s else dflt
                       | BFun f \<Rightarrow> f commentsFile
                       | _ \<Rightarrow> dflt)
                in if banner_text \<noteq> [] then
                     (case g_outputSource (globals w) of
                        None \<Rightarrow> (Some (ReferenceError ''outputSource''), w)
                      | Some outputSource \<Rightarrow>
                          (let (c, w') = new_object
                                 (ConcatSource
                                    [CStr (''/*! '' @ banner_text @ '' */'' @ NL @ [CHR 0x22]),
                                     CSrc (content (heap w outputSource))]) w
                           in (None, w'\<lparr>globals := (globals w')\<lparr>g_outputSource := Some c\<rparr>\<rparr>)))
                   else (None, w))))"

definition writeExtractedComments ::
  "options \<Rightarrow> string list \<Rightarrow> world \<Rightarrow> js_error option \<times> world" where
  "writeExtractedComments this_options extractedComments w =
     (case filename_of (extractComments this_options) of
        Inl e \<Rightarrow> (Some e, w)
      | Inr fn \<Rightarrow>
          (case resolve_commentsFile (globals w) fn of
             Inl e \<Rightarrow> (Some e, w)
           | Inr commentsFile \<Rightarrow>
               (let (commentsSource, w1) =
                      new_object (RawSource (join (NL @ NL) extractedComments @ NL)) w;
                    w2 = put_comments commentsFile commentsSource w1
                in add_banner this_options commentsFile w2)))"


subsection \<open>\<^verbatim>\<open>_processFile\<close>\<close>

text \<open>
  \<^verbatim>\<open>Object.assign({comments, beautify}, this._options.output)\<close>
\<close>

definition setup_output :: "options \<Rightarrow> output_object" where
  "setup_output this_options =
     (case output_opts this_options of
        None \<Rightarrow> \<lparr>o_comments = comments this_options, o_beautify = beautify this_options\<rparr>
      | Some oo \<Rightarrow>
          \<lparr>o_comments = or_default (oo_comments oo) (comments this_options),
           o_beautify = (case oo_beautify oo of None \<Rightarrow> beautify this_options | Some b \<Rightarrow> Some b)\<rparr>)"

text \<open>
  The result is the exception that leaves the method, if one does, and the state. The
  array \<^verbatim>\<open>warnings\<close> is a local; the output object, with the visitor in it, is a local
  that is passed to nothing, the minifier included. Of what the minifier returns only
  \<^verbatim>\<open>code\<close> is read, and a \<^verbatim>\<open>RawSource\<close> is built on it whatever it is.
\<close>

definition processFile :: "lib \<Rightarrow> options \<Rightarrow> string \<Rightarrow> world \<Rightarrow> js_error option \<times> world" where
  "processFile l this_options file w =
     (let local_warnings = ([] :: string list)
      in case assets w file of
           None \<Rightarrow> (Some (TypeError ''Cannot read property __UglifyJsPlugin of undefined''), w)
         | Some asset \<Rightarrow>
             (case UglifyJsPlugin (heap w asset) of
                Some prior \<Rightarrow> (None, w\<lparr>assets := (assets w)(file \<mapsto> prior)\<rparr>)
              | None \<Rightarrow>
                  (let out = setup_output this_options
                   in case processSourceMap l this_options asset w of
                        (Inl e, w1) \<Rightarrow> (Some e, w1)
                      | (Inr input, w1) \<Rightarrow>
                          (let w2 = log [minify_event input] w1
                           in case minify l input
                                     \<lparr>m_mangle = mangle this_options,
                                      m_toplevel = toplevel this_options,
                                      m_sourceMap = sourceMap this_options\<rparr> of
                                Inl e \<Rightarrow> (Some e, w2)
                              | Inr result \<Rightarrow>
                                  (case (if truthy_extract (extractComments this_options)
                                         then map_sum id fst
                                                (processExtractComments l (globals w2) this_options out)
                                         else Inr []) of
                                     Inl e \<Rightarrow> (Some e, w2)
                                   | Inr extractedComments \<Rightarrow>
                                       (let compressedCode = r_code result;
                                            (outputSource, w3) =
                                              new_object (new_RawSource compressedCode) w2
                                        in case (if length extractedComments > 0
                                                 then writeExtractedComments this_options
                                                        extractedComments w3
                                                 else (None, w3)) of
                                             (Some e, w4) \<Rightarrow> (Some e, w4)
                                           | (None, w4) \<Rightarrow>
                                               (let w5 = w4\<lparr>assets := (assets w4)(file \<mapsto> outputSource)\<rparr>;
                                                    w6 = w5\<lparr>heap := (heap w5)(asset := (heap w5 asset)
                                                               \<lparr>UglifyJsPlugin := Some outputSource\<rparr>)\<rparr>
                                                in (None,
                                                    if length local_warnings > 0
                                                    then w6\<lparr>warnings := warnings w6 @
                                                            [file @ '' from UglifyJs'' @ NL @ '' ''
                                                             @ join NL local_warnings]\<rparr>
                                                    else w6))))))))"


subsection \<open>\<^verbatim>\<open>_compile\<close>\<close>

record chunk =
  files :: "string list"

text \<open>
  The callback of \<^verbatim>\<open>forEach\<close>: \<^verbatim>\<open>try\<close>, \<^verbatim>\<open>catch\<close>, \<^verbatim>\<open>finally\<close>. The handler is
  called with three arguments, so its parameter \<^verbatim>\<open>sourceMap\<close> is \<^verbatim>\<open>undefined\<close>. An
  exception of the handler leaves the callback after the \<^verbatim>\<open>finally\<close> block.
\<close>

definition process_one :: "lib \<Rightarrow> options \<Rightarrow> string \<Rightarrow> world \<Rightarrow> js_error option \<times> world" where
  "process_one l this_options file w =
     (let oldWarnFunction = warn_function w;
          (thrown, w1) =
             (case processFile l this_options file w of
                (None, w') \<Rightarrow> (None, w')
              | (Some err, w') \<Rightarrow> processExeption err file None w')
      in (thrown, w1\<lparr>warn_function := oldWarnFunction\<rparr>))"

fun forEach :: "(string \<Rightarrow> world \<Rightarrow> js_error option \<times> world) \<Rightarrow> string list \<Rightarrow> world
                \<Rightarrow> js_error option \<times> world" where
  "forEach f [] w = (None, w)"
| "forEach f (x # xs) w =
     (case f x w of
        (Some e, w') \<Rightarrow> (Some e, w')
      | (None, w') \<Rightarrow> forEach f xs w')"

definition candidate_files :: "lib \<Rightarrow> chunk list \<Rightarrow> world \<Rightarrow> string list" where
  "candidate_files l chunks w =
     filter (matchObject l) (additionalChunkAssets w @ concat (map files chunks))"

definition compile :: "lib \<Rightarrow> options \<Rightarrow> chunk list \<Rightarrow> world \<Rightarrow> js_error option \<times> world" where
  "compile l this_options chunks w =
     (case forEach (process_one l this_options) (candidate_files l chunks w) w of
        (Some e, w') \<Rightarrow> (Some e, w')
      | (None, w') \<Rightarrow> (None, w'\<lparr>callbacks := Suc (callbacks w')\<rparr>))"


section \<open>Example inputs\<close>

text \<open>
  A minifier that rejects one input with a position, the way \<^verbatim>\<open>uglify-es\<close> does (it
  returns the failure in \<^verbatim>\<open>error\<close>), and prefixes every other one; a consumer that
  knows no original position; and a selection by the extension \<^verbatim>\<open>.js\<close>.
\<close>

definition parse_failure :: js_error where
  "parse_failure =
     \<lparr>e_line = Some 3, e_col = Some 5, e_message = Some ''Unexpected token'',
      e_msg = None, e_stack = Some ''SyntaxError: Unexpected token''\<rparr>"

definition example_lib :: lib where
  "example_lib =
     \<lparr>minify = (\<lambda>input mo.
                  case input of
                    None \<Rightarrow> Inr \<lparr>r_code = None, r_error = Some (TypeError ''no input'')\<rparr>
                  | Some text \<Rightarrow>
                      if text = ''function(''
                      then Inr \<lparr>r_code = None, r_error = Some parse_failure\<rparr>
                      else Inr \<lparr>r_code = Some (''min:'' @ text), r_error = None\<rparr>),
      SourceMapConsumer =
        (\<lambda>m. Inr (\<lambda>ln cl. \<lparr>op_source = None, op_line = None, op_column = None\<rparr>)),
      matchObject = (\<lambda>f. drop (length f - 3) f = ''.js''),
      RegExp_host = (\<lambda>s. Inl (TypeError ''Invalid regular expression'')),
      concat_map = (\<lambda>cs. None)\<rparr>"

definition no_user_options :: user_options where
  "no_user_options =
     \<lparr>u_warningFilter = None, u_sourceMap = None, u_mangle = None, u_toplevel = None,
      u_comments = None, u_beautify = None, u_output = None, u_extractComments = None\<rparr>"

definition example_options :: options where
  "example_options = UglifyEsPlugin no_user_options"

text \<open>
  A compilation in which \<^verbatim>\<open>a.js\<close> and \<^verbatim>\<open>b.js\<close> name the same asset object and
  \<^verbatim>\<open>bad.js\<close> names an asset the minifier rejects.
\<close>

definition example_world :: world where
  "example_world =
     \<lparr>assets = [''a.js'' \<mapsto> 0, ''b.js'' \<mapsto> 0, ''bad.js'' \<mapsto> 1],
      errors = [], warnings = [], additionalChunkAssets = [],
      heap = (\<lambda>a. \<lparr>content = RawSource [], UglifyJsPlugin = None\<rparr>)
               (0 := \<lparr>content = RawSource ''var a = 1;'', UglifyJsPlugin = None\<rparr>,
                1 := \<lparr>content = RawSource ''function('', UglifyJsPlugin = None\<rparr>),
      next_addr = 2, globals = module_scope, warn_function = 0, trace = [], callbacks = 0\<rparr>"

text \<open>A consumer that maps every position to \<^verbatim>\<open>original.js:10,2\<close>.\<close>

definition example_consumer :: consumer where
  "example_consumer = (\<lambda>ln cl. \<lparr>op_source = Some ''original.js'', op_line = Some 10, op_column = Some 2\<rparr>)"


section \<open>Properties\<close>

subsection \<open>The shape of a run of \<^verbatim>\<open>_processFile\<close>\<close>

lemma extracted_empty:
  "map_sum id fst (processExtractComments l sc opts out) = Inr xs \<Longrightarrow> xs = []"
  by (auto simp: processExtractComments_def split: sum.splits)

lemma extracted_if_empty:
  "(if c then map_sum id fst (processExtractComments l sc opts out) else Inr []) = Inr xs
   \<Longrightarrow> xs = []"
  by (auto dest: extracted_empty split: if_splits)

lemma processSourceMap_frame:
  "processSourceMap l opts a w = (r, w') \<Longrightarrow> \<exists>evs. w' = log evs w"
  by (auto simp: processSourceMap_def log_def Let_def split: if_splits sum.splits)

text \<open>
  A run either raises, having only made calls; or finds the marker and installs the prior
  result; or goes on after the minifier returned, and then allocates one \<^verbatim>\<open>RawSource\<close>
  on the code it read, installs it and marks the asset.
\<close>

lemma processFile_cases:
  assumes "processFile l opts file w = (r, w')"
  shows "(\<exists>e evs. r = Some e \<and> w' = log evs w)
       \<or> (\<exists>asset prior. r = None \<and> assets w file = Some asset
             \<and> UglifyJsPlugin (heap w asset) = Some prior
             \<and> w' = w\<lparr>assets := (assets w)(file \<mapsto> prior)\<rparr>)
       \<or> (\<exists>asset evs code. r = None \<and> assets w file = Some asset
             \<and> UglifyJsPlugin (heap w asset) = None
             \<and> w' = (log evs w)
                  \<lparr>heap := (heap w)
                     (next_addr w := \<lparr>content = new_RawSource code, UglifyJsPlugin = None\<rparr>,
                      asset := (((heap w)(next_addr w :=
                                   \<lparr>content = new_RawSource code, UglifyJsPlugin = None\<rparr>)) asset)
                               \<lparr>UglifyJsPlugin := Some (next_addr w)\<rparr>),
                   next_addr := Suc (next_addr w),
                   assets := (assets w)(file \<mapsto> next_addr w)\<rparr>)"
proof (cases "assets w file")
  case None
  with assms have "r = Some (TypeError ''Cannot read property __UglifyJsPlugin of undefined'')
                   \<and> w' = log [] w"
    by (simp add: processFile_def log_def)
  then show ?thesis by blast
next
  case (Some asset)
  note present = Some
  show ?thesis
  proof (cases "UglifyJsPlugin (heap w asset)")
    case (Some prior)
    with present assms show ?thesis
      by (simp add: processFile_def)
  next
    case None
    note marker = None
    obtain ri w1 where psm: "processSourceMap l opts asset w = (ri, w1)"
      by (cases "processSourceMap l opts asset w")
    then obtain evs where w1: "w1 = log evs w"
      using processSourceMap_frame by blast
    show ?thesis
    proof (cases ri)
      case (Inl e)
      with psm marker present assms have "r = Some e \<and> w' = w1"
        by (simp add: processFile_def)
      with w1 show ?thesis by blast
    next
      case (Inr input)
      note inp = Inr
      let ?mo = "\<lparr>m_mangle = mangle opts, m_toplevel = toplevel opts,
                  m_sourceMap = sourceMap opts\<rparr>"
      have w2: "log [minify_event input] w1 = log (evs @ [minify_event input]) w"
        by (simp add: w1 log_def)
      show ?thesis
      proof (cases "minify l input ?mo")
        case (Inl e)
        with psm inp marker present assms
        have "r = Some e \<and> w' = log [minify_event input] w1"
          by (simp add: processFile_def)
        with w2 show ?thesis by metis
      next
        case (Inr res)
        note mini = Inr
        let ?ex = "(if truthy_extract (extractComments opts)
                    then map_sum id fst
                           (processExtractComments l (globals (log [minify_event input] w1))
                              opts (setup_output opts))
                    else Inr [])"
        show ?thesis
        proof (cases ?ex)
          case (Inl e)
          with psm inp mini marker present assms
          have "r = Some e \<and> w' = log [minify_event input] w1"
            by (simp add: processFile_def)
          with w2 show ?thesis by metis
        next
          case (Inr xs)
          then have "xs = []" by (rule extracted_if_empty)
          with Inr psm inp mini marker present assms
          have "r = None \<and> w' = (log [minify_event input] w1)
                  \<lparr>heap := (heap w1)
                     (next_addr w1 :=
                        \<lparr>content = new_RawSource (r_code res), UglifyJsPlugin = None\<rparr>,
                      asset := (((heap w1)(next_addr w1 :=
                                   \<lparr>content = new_RawSource (r_code res),
                                    UglifyJsPlugin = None\<rparr>)) asset)
                               \<lparr>UglifyJsPlugin := Some (next_addr w1)\<rparr>),
                   next_addr := Suc (next_addr w1),
                   assets := (assets w1)(file \<mapsto> next_addr w1)\<rparr>"
            by (simp add: processFile_def Let_def) (auto simp: new_object_def log_def)
          then have "r = None \<and> w' = (log (evs @ [minify_event input]) w)
                  \<lparr>heap := (heap w)
                     (next_addr w :=
                        \<lparr>content = new_RawSource (r_code res), UglifyJsPlugin = None\<rparr>,
                      asset := (((heap w)(next_addr w :=
                                   \<lparr>content = new_RawSource (r_code res),
                                    UglifyJsPlugin = None\<rparr>)) asset)
                               \<lparr>UglifyJsPlugin := Some (next_addr w)\<rparr>),
                   next_addr := Suc (next_addr w),
                   assets := (assets w)(file \<mapsto> next_addr w)\<rparr>"
            by (simp add: w1 log_def)
          with marker present show ?thesis by blast
        qed
      qed
    qed
  qed
qed

lemma processFile_raise:
  "processFile l opts file w = (Some e, w') \<Longrightarrow> \<exists>evs. w' = log evs w"
  using processFile_cases [of l opts "file" w "Some e" w'] by auto

lemma processExeption_undefined_map:
  "\<exists>m. processExeption err file None w =
         (None, push_error (file @ '' from UglifyJs'' @ NL @ m) w)"
  by (auto simp: processExeption_def split: option.splits)

lemma process_one_returns: "fst (process_one l opts file w) = None"
proof (cases "processFile l opts file w")
  case (Pair r w')
  show ?thesis
  proof (cases r)
    case None
    with Pair show ?thesis by (simp add: process_one_def)
  next
    case (Some err)
    obtain m where "processExeption err file None w' =
                      (None, push_error (file @ '' from UglifyJs'' @ NL @ m) w')"
      using processExeption_undefined_map by blast
    with Pair Some show ?thesis by (simp add: process_one_def)
  qed
qed

lemma forEach_returns: "fst (forEach (process_one l opts) fs w) = None"
proof (induction fs arbitrary: w)
  case Nil
  show ?case by simp
next
  case (Cons f fs)
  obtain w' where "process_one l opts f w = (None, w')"
    using process_one_returns [of l opts f w] by (cases "process_one l opts f w") auto
  with Cons show ?case by simp
qed

lemma compile_returns: "fst (compile l opts chunks w) = None"
  using forEach_returns [of l opts "candidate_files l chunks w" w]
  by (cases "forEach (process_one l opts) (candidate_files l chunks w) w")
     (auto simp: compile_def)

lemma process_one_failure:
  assumes "processFile l opts file w = (Some err, w')"
  shows "\<exists>m evs. process_one l opts file w =
           (None, (push_error (file @ '' from UglifyJs'' @ NL @ m) (log evs w))
                    \<lparr>warn_function := warn_function w\<rparr>)"
proof -
  obtain evs where w': "w' = log evs w"
    using assms processFile_raise by blast
  obtain m where "processExeption err file None w' =
                    (None, push_error (file @ '' from UglifyJs'' @ NL @ m) w')"
    using processExeption_undefined_map by blast
  with assms w' have "process_one l opts file w =
           (None, (push_error (file @ '' from UglifyJs'' @ NL @ m) (log evs w))
                    \<lparr>warn_function := warn_function w\<rparr>)"
    by (simp add: process_one_def)
  then show ?thesis by blast
qed


subsection \<open>Unfolding the examples\<close>

lemmas example_defs = example_lib_def example_options_def example_world_def no_user_options_def
  UglifyEsPlugin_def or_default_def module_scope_def parse_failure_def

lemmas method_defs = processFile_def processSourceMap_def setup_output_def new_object_def
  log_def truthy_extract_def has_sourceAndMap_def source_map_def source_value_def
  new_RawSource_def minify_event_def


subsection \<open>Reuse of a prior result\<close>

text \<open>
  C1. Once \<^verbatim>\<open>_processFile\<close> has returned normally for a file whose asset is the object
  \<open>asset\<close>, processing that object again, under any name and in any later state in which
  the object is as the first run left it, returns normally and changes nothing but the
  entry of that name, which becomes the output of the first run: the record of calls is
  as before, so the minifier, the accessors and the consumer are not called, and the
  heap and the errors are as before.
\<close>

theorem processFile_twice:
  assumes first: "processFile l opts file w = (None, w1)"
      and asset: "assets w file = Some asset"
      and again: "assets w2 file' = Some asset"
      and kept: "heap w2 asset = heap w1 asset"
  shows "\<exists>out. assets w1 file = Some out
           \<and> processFile l opts file' w2 = (None, w2\<lparr>assets := (assets w2)(file' \<mapsto> out)\<rparr>)
           \<and> trace (snd (processFile l opts file' w2)) = trace w2
           \<and> errors (snd (processFile l opts file' w2)) = errors w2
           \<and> heap (snd (processFile l opts file' w2)) = heap w2"
proof -
  have "\<exists>out. assets w1 file = Some out \<and> UglifyJsPlugin (heap w1 asset) = Some out"
    using processFile_cases [OF first] asset by (auto simp: log_def)
  then obtain out where out: "assets w1 file = Some out"
      "UglifyJsPlugin (heap w1 asset) = Some out"
    by blast
  with again kept
  have second: "processFile l opts file' w2
                  = (None, w2\<lparr>assets := (assets w2)(file' \<mapsto> out)\<rparr>)"
    by (simp add: processFile_def)
  then have "trace (snd (processFile l opts file' w2)) = trace w2"
       "errors (snd (processFile l opts file' w2)) = errors w2"
       "heap (snd (processFile l opts file' w2)) = heap w2"
    by simp_all
  with out second show ?thesis by blast
qed


theorem processFile_twice_witness:
  "processFile example_lib example_options ''a.js'' example_world
     = (None, snd (processFile example_lib example_options ''a.js'' example_world))
   \<and> assets example_world ''a.js'' = Some 0
   \<and> assets (snd (processFile example_lib example_options ''a.js'' example_world)) ''b.js''
       = Some 0
   \<and> trace (snd (processFile example_lib example_options ''a.js'' example_world))
       = [Call_sourceAndMap 0, New_SourceMapConsumer None, Call_minify ''var a = 1;'']
   \<and> (\<exists>out. assets (snd (processFile example_lib example_options ''a.js'' example_world))
               ''a.js'' = Some out
         \<and> processFile example_lib example_options ''b.js''
               (snd (processFile example_lib example_options ''a.js'' example_world))
             = (None, (snd (processFile example_lib example_options ''a.js'' example_world))
                  \<lparr>assets :=
                     (assets (snd (processFile example_lib example_options ''a.js''
                                     example_world)))
                     (''b.js'' \<mapsto> out)\<rparr>)
         \<and> trace (snd (processFile example_lib example_options ''b.js''
                         (snd (processFile example_lib example_options ''a.js''
                                 example_world))))
             = [Call_sourceAndMap 0, New_SourceMapConsumer None, Call_minify ''var a = 1;''])"
proof -
  let ?w1 = "snd (processFile example_lib example_options ''a.js'' example_world)"
  have first: "processFile example_lib example_options ''a.js'' example_world = (None, ?w1)"
    by (simp add: example_defs method_defs)
  have asset: "assets example_world ''a.js'' = Some 0"
    by (simp add: example_world_def)
  have again: "assets ?w1 ''b.js'' = Some 0"
    by (simp add: example_defs method_defs)
  have calls: "trace ?w1
                 = [Call_sourceAndMap 0, New_SourceMapConsumer None, Call_minify ''var a = 1;'']"
    by (simp add: example_defs method_defs)
  have kept: "heap ?w1 0 = heap ?w1 0" by simp
  show ?thesis
    using first asset again calls processFile_twice [OF first asset again kept]
    by (simp only:) blast
qed



subsection \<open>Failures of a file\<close>

text \<open>
  What the \<^verbatim>\<open>try\<close> and \<^verbatim>\<open>catch\<close> of \<^verbatim>\<open>_compile\<close> do for a failure that is raised:
  when \<^verbatim>\<open>_processFile\<close> raises for a file, the callback of the loop returns normally;
  the state it leaves has one more error, whose message starts with the file name and the
  engine's name, and the assets and the heap of before; the loop goes on with the files
  after it; and neither the loop nor \<^verbatim>\<open>_compile\<close>, on any input, lets an exception
  out.
\<close>

lemma raised_failure_is_recorded:
  assumes "processFile l opts file w = (Some err, w')"
  shows "\<exists>m w''. process_one l opts file w = (None, w'')
           \<and> errors w'' = errors w @ [file @ '' from UglifyJs'' @ NL @ m]
           \<and> assets w'' = assets w \<and> heap w'' = heap w
           \<and> forEach (process_one l opts) (file # rest) w
               = forEach (process_one l opts) rest w''
           \<and> fst (forEach (process_one l opts) (file # rest) w) = None
           \<and> fst (compile l opts chunks w0) = None"
proof -
  obtain m evs where p: "process_one l opts file w =
           (None, (push_error (file @ '' from UglifyJs'' @ NL @ m) (log evs w))
                    \<lparr>warn_function := warn_function w\<rparr>)"
    using process_one_failure [OF assms] by blast
  let ?w = "(push_error (file @ '' from UglifyJs'' @ NL @ m) (log evs w))
              \<lparr>warn_function := warn_function w\<rparr>"
  have "errors ?w = errors w @ [file @ '' from UglifyJs'' @ NL @ m]"
       "assets ?w = assets w" "heap ?w = heap w"
    by (simp_all add: push_error_def log_def)
  moreover have "forEach (process_one l opts) (file # rest) w
                   = forEach (process_one l opts) rest ?w"
    using p by simp
  ultimately show ?thesis using p forEach_returns compile_returns by blast
qed

text \<open>A file with no asset is such a failure: reading the marker of \<^verbatim>\<open>undefined\<close> raises.\<close>

lemma missing_asset_is_recorded:
  "compile example_lib example_options [\<lparr>files = [''missing.js'']\<rparr>] example_world
     = (None,
        example_world
          \<lparr>errors := [''missing.js from UglifyJs'' @ NL
                       @ ''TypeError: Cannot read property __UglifyJsPlugin of undefined''],
           callbacks := 1\<rparr>)"
  by (simp add: compile_def candidate_files_def process_one_def processExeption_def
        push_error_def example_defs method_defs TypeError_def truthy_str_def str_str_def)



subsection \<open>Warnings\<close>

lemma processFile_warnings: "warnings (snd (processFile l opts file w)) = warnings w"
  using processFile_cases [of l opts "file" w "fst (processFile l opts file w)"
                             "snd (processFile l opts file w)"]
  by (auto simp: log_def)

lemma process_one_warnings: "warnings (snd (process_one l opts file w)) = warnings w"
proof (cases "processFile l opts file w")
  case (Pair r w')
  have w': "warnings w' = warnings w"
    using processFile_warnings [of l opts "file" w] Pair by simp
  show ?thesis
  proof (cases r)
    case None
    with Pair w' show ?thesis by (simp add: process_one_def)
  next
    case (Some err)
    obtain m where "processExeption err file None w' =
                      (None, push_error (file @ '' from UglifyJs'' @ NL @ m) w')"
      using processExeption_undefined_map by blast
    with Pair Some w' show ?thesis by (simp add: process_one_def push_error_def)
  qed
qed

lemma forEach_warnings: "warnings (snd (forEach (process_one l opts) fs w)) = warnings w"
proof (induction fs arbitrary: w)
  case Nil
  show ?case by simp
next
  case (Cons f fs)
  obtain w' where p: "process_one l opts f w = (None, w')"
    using process_one_returns [of l opts f w] by (cases "process_one l opts f w") auto
  then have "warnings w' = warnings w"
    using process_one_warnings [of l opts f w] by simp
  with Cons p show ?case by simp
qed

lemma processFile_warningFilter:
  "processFile l (opts\<lparr>warningFilter := f\<rparr>) file w = processFile l opts file w"
  by (simp add: processFile_def processSourceMap_def processExtractComments_def
        choose_conditions_def writeExtractedComments_def add_banner_def setup_output_def
        cong: if_cong option.case_cong sum.case_cong prod.case_cong)

lemma process_one_warningFilter:
  "process_one l (opts\<lparr>warningFilter := f\<rparr>) = process_one l opts"
  by (rule ext, rule ext) (simp add: process_one_def processFile_warningFilter)

text \<open>
  C10. The local array \<^verbatim>\<open>warnings\<close> of \<^verbatim>\<open>_processFile\<close> is empty at the final test,
  so no run of \<^verbatim>\<open>_processFile\<close>, and no run of \<^verbatim>\<open>_compile\<close>, changes the warnings of
  the compilation; and the result of \<^verbatim>\<open>_compile\<close>, and of each method that reads the
  options, is the same whatever the option \<^verbatim>\<open>warningFilter\<close> is, which is how a pure
  model says that the function is never called.
\<close>

theorem warnings_never_emitted:
  "warnings (snd (processFile l opts file w)) = warnings w
   \<and> warnings (snd (compile l opts chunks w)) = warnings w
   \<and> compile l (opts\<lparr>warningFilter := f\<rparr>) chunks w = compile l opts chunks w
   \<and> processFile l (opts\<lparr>warningFilter := f\<rparr>) file w = processFile l opts file w
   \<and> processSourceMap l (opts\<lparr>warningFilter := f\<rparr>) a w = processSourceMap l opts a w
   \<and> processExtractComments l sc (opts\<lparr>warningFilter := f\<rparr>) out
       = processExtractComments l sc opts out
   \<and> writeExtractedComments (opts\<lparr>warningFilter := f\<rparr>) cs w
       = writeExtractedComments opts cs w"
proof -
  have "warnings (snd (compile l opts chunks w)) = warnings w"
    using forEach_warnings [of l opts "candidate_files l chunks w" w]
    by (cases "forEach (process_one l opts) (candidate_files l chunks w) w")
       (auto simp: compile_def split: option.splits)
  moreover have "compile l (opts\<lparr>warningFilter := f\<rparr>) chunks w = compile l opts chunks w"
    by (simp add: compile_def process_one_warningFilter)
  moreover have "processSourceMap l (opts\<lparr>warningFilter := f\<rparr>) a w = processSourceMap l opts a w"
    by (simp add: processSourceMap_def)
  moreover have "processExtractComments l sc (opts\<lparr>warningFilter := f\<rparr>) out
                   = processExtractComments l sc opts out"
    by (simp add: processExtractComments_def choose_conditions_def)
  moreover have "writeExtractedComments (opts\<lparr>warningFilter := f\<rparr>) cs w
                   = writeExtractedComments opts cs w"
    by (simp add: writeExtractedComments_def add_banner_def
          cong: sum.case_cong prod.case_cong)
  ultimately show ?thesis
    using processFile_warnings processFile_warningFilter by blast
qed


subsection \<open>Predicate specs and the visitor\<close>

lemma parse_bang: "parse_re ''^!'' = Some (RSeq RBol (lit ''!''))"
  by (simp add: parse_re_def lit_def syntax_char_def)

lemma parse_license: "parse_re ''@license'' = Some (lit ''@license'')"
  by (simp add: parse_re_def lit_def syntax_char_def)

lemma test_license: "re_test (lit ''@license'') ''@license foo''"
  by (simp add: re_test_def lit_def)

lemma test_bang: "re_test (RSeq RBol (lit ''!'')) ''!keep''"
  by (simp add: re_test_def lit_def)

text \<open>
  C6. The loop body turns each shape of spec into a function: a boolean into the constant
  function of that value; a function into itself; the string \<^verbatim>\<open>all\<close> into the constant
  true; any other string, once \<^verbatim>\<open>RegExp\<close> has compiled it to \<open>r\<close>, into the test of \<open>r\<close>
  against the value of the comment; a regular-expression-like object into its test
  against that value. In particular \<^verbatim>\<open>true\<close> gives true on anything, \<^verbatim>\<open>"@license"\<close>
  gives true on the value \<^verbatim>\<open>@license foo\<close>, and \<^verbatim>\<open>/^!/\<close> gives true on \<^verbatim>\<open>!keep\<close>.
\<close>

theorem ensure_function_shapes:
  assumes "s \<noteq> ''all''" and "new_RegExp (RegExp_host l) s = Inr r"
  shows "(\<exists>p. ensure_function l (SBool b) = Inr p \<and> (\<forall>n c. p n c = Inr b))
       \<and> ensure_function l (SFun f) = Inr f
       \<and> (\<exists>p. ensure_function l (SStr ''all'') = Inr p \<and> (\<forall>n c. p n c = Inr True))
       \<and> (\<exists>p. ensure_function l (SStr s) = Inr p
              \<and> (\<forall>n c. p n c = Inr (regex_test r (c_value c))))
       \<and> (\<exists>p. ensure_function l (SRegex r') = Inr p
              \<and> (\<forall>n c. p n c = Inr (regex_test r' (c_value c))))
       \<and> (\<exists>p. ensure_function l (SBool True) = Inr p \<and> p n c = Inr True)
       \<and> (\<exists>p. ensure_function l (SStr ''@license'') = Inr p
              \<and> p n \<lparr>c_type = t, c_value = ''@license foo''\<rparr> = Inr True)
       \<and> parse_re ''^!'' = Some (RSeq RBol (lit ''!''))
       \<and> (\<exists>p. ensure_function l (SRegex (Pattern (RSeq RBol (lit ''!'')))) = Inr p
              \<and> p n \<lparr>c_type = t, c_value = ''!keep''\<rparr> = Inr True)"
  using assms parse_bang parse_license test_license test_bang
  by (simp add: ensure_function_def new_RegExp_def)

theorem ensure_function_shapes_witness:
  "''^!'' \<noteq> ''all''
   \<and> new_RegExp (RegExp_host example_lib) ''^!'' = Inr (Pattern (RSeq RBol (lit ''!'')))
   \<and> (\<exists>p. ensure_function example_lib (SStr ''^!'') = Inr p
          \<and> p 0 \<lparr>c_type = ''comment2'', c_value = ''!keep''\<rparr> = Inr True
          \<and> p 0 \<lparr>c_type = ''comment2'', c_value = '' !keep''\<rparr> = Inr False)"
proof -
  have h1: "''^!'' \<noteq> ''all''" by simp
  have h2: "new_RegExp (RegExp_host example_lib) ''^!'' = Inr (Pattern (RSeq RBol (lit ''!'')))"
    by (simp add: new_RegExp_def parse_bang)
  have t1: "regex_test (Pattern (RSeq RBol (lit ''!''))) ''!keep''"
    by (simp add: re_test_def lit_def)
  have t2: "\<not> regex_test (Pattern (RSeq RBol (lit ''!''))) '' !keep''"
    by (simp add: re_test_def lit_def)
  from ensure_function_shapes [OF h1 h2]
  obtain p where "ensure_function example_lib (SStr ''^!'') = Inr p"
     "\<forall>n c. p n c = Inr (regex_test (Pattern (RSeq RBol (lit ''!''))) (c_value c))"
    by blast
  with t1 t2 h1 h2 show ?thesis by simp
qed

text \<open>
  C7. The visitor calls the extract predicate first, and when that raises nothing else
  happens. Over comments on which the two predicates return \<open>E\<close> and \<open>P\<close>, a call appends
  the formatted comment to the array exactly when \<open>E\<close> holds and returns what the preserve
  predicate returns; so a traversal leaves the array extended by the formatted comments
  that satisfy \<open>E\<close>, in the order of the traversal, each as often as it was met, and
  returns the decisions \<open>P\<close> in that order. A comment of type \<^verbatim>\<open>comment2\<close> is formatted
  between \<^verbatim>\<open>/*\<close> and \<^verbatim>\<open>*/\<close>, any other after \<^verbatim>\<open>//\<close>.
\<close>

theorem visitor_routes_comments:
  assumes ex: "\<And>c. c \<in> set cs \<Longrightarrow> extract_fn n c = Inr (E c)"
      and pr: "\<And>c. c \<in> set cs \<Longrightarrow> preserve_fn n c = Inr (P c)"
  shows "traverse (output_comments preserve_fn extract_fn) n cs sink
           = (Inr (map P cs), sink @ map comm (filter E cs))
       \<and> (\<forall>c \<in> set cs. \<forall>k. output_comments preserve_fn extract_fn n c k
              = (preserve_fn n c, if E c then k @ [comm c] else k))
       \<and> (\<forall>c' k e. extract_fn n c' = Inl e
              \<longrightarrow> output_comments preserve_fn extract_fn n c' k = (Inl e, k))
       \<and> comm \<lparr>c_type = ''comment2'', c_value = v\<rparr> = ''/*'' @ v @ ''*/''
       \<and> (t \<noteq> ''comment2'' \<longrightarrow> comm \<lparr>c_type = t, c_value = v\<rparr> = ''//'' @ v)"
proof -
  have one: "\<And>c k. c \<in> set cs \<Longrightarrow> output_comments preserve_fn extract_fn n c k
              = (preserve_fn n c, if E c then k @ [comm c] else k)"
    using ex by (simp add: output_comments_def)
  have "traverse (output_comments preserve_fn extract_fn) n cs sink
           = (Inr (map P cs), sink @ map comm (filter E cs))"
    using ex pr
  proof (induction cs arbitrary: sink)
    case Nil
    show ?case by simp
  next
    case (Cons c cs)
    have "output_comments preserve_fn extract_fn n c sink
              = (Inr (P c), if E c then sink @ [comm c] else sink)"
      using Cons.prems by (simp add: output_comments_def)
    moreover have "traverse (output_comments preserve_fn extract_fn) n cs
                     (if E c then sink @ [comm c] else sink)
           = (Inr (map P cs),
              (if E c then sink @ [comm c] else sink) @ map comm (filter E cs))"
      using Cons by simp
    ultimately show ?case by simp
  qed
  with one show ?thesis by (simp add: comm_def output_comments_def)
qed

theorem visitor_routes_comments_witness:
  "traverse
     (output_comments (\<lambda>n c. Inr False)
        (\<lambda>n c. Inr (regex_test default_comments (c_value c)))) 0
     [\<lparr>c_type = ''comment1'', c_value = ''@license MIT''\<rparr>,
      \<lparr>c_type = ''comment2'', c_value = '' plain ''\<rparr>,
      \<lparr>c_type = ''comment2'', c_value = ''! keep ''\<rparr>,
      \<lparr>c_type = ''comment1'', c_value = ''@license MIT''\<rparr>] [''/*! first */'']
    = (Inr [False, False, False, False],
       [''/*! first */'', ''//@license MIT'', ''/*! keep */'', ''//@license MIT''])"
proof -
  let ?cs = "[\<lparr>c_type = ''comment1'', c_value = ''@license MIT''\<rparr>,
      \<lparr>c_type = ''comment2'', c_value = '' plain ''\<rparr>,
      \<lparr>c_type = ''comment2'', c_value = ''! keep ''\<rparr>,
      \<lparr>c_type = ''comment1'', c_value = ''@license MIT''\<rparr>]"
  let ?ex_fn = "\<lambda>n c. Inr (regex_test default_comments (c_value c)) :: js_error + bool"
  let ?pr_fn = "\<lambda>n c. Inr False :: js_error + bool"
  have tests: "regex_test default_comments ''@license MIT''"
       "\<not> regex_test default_comments '' plain ''"
       "regex_test default_comments ''! keep ''"
    by (simp_all add: default_comments_def re_test_def lit_def)
  have ex: "\<And>c. c \<in> set ?cs
              \<Longrightarrow> ?ex_fn (0::astnode) c = Inr (regex_test default_comments (c_value c))"
    by simp
  have pr: "\<And>c. c \<in> set ?cs \<Longrightarrow> ?pr_fn (0::astnode) c = Inr ((\<lambda>c. False) c)"
    by simp
  show ?thesis
    using visitor_routes_comments [of ?cs ?ex_fn 0 "\<lambda>c. regex_test default_comments (c_value c)"
                                      ?pr_fn "\<lambda>c. False" "[''/*! first */'']", OF ex pr]
          tests
    by (simp add: comm_def)
qed



subsection \<open>The choice of the conditions\<close>

text \<open>
  Were \<^verbatim>\<open>options\<close> bound to the options of the plugin, the choice would go by the value
  of \<^verbatim>\<open>extractComments\<close>: a string or a regular expression is the extract condition and
  \<^verbatim>\<open>output.comments\<close> the preserve condition; so is the \<^verbatim>\<open>condition\<close> of an object that
  has one; otherwise nothing is preserved and \<^verbatim>\<open>output.comments\<close> is the extract
  condition.
\<close>

lemma choose_conditions_bound:
  "choose_conditions (sc\<lparr>g_options := Some opts\<rparr>) opts out =
     (case extractComments opts of
        EStr s \<Rightarrow> Inr \<lparr>cond_preserve = o_comments out, cond_extract = SStr s\<rparr>
      | ERegex r \<Rightarrow> Inr \<lparr>cond_preserve = o_comments out, cond_extract = SRegex r\<rparr>
      | EObj ob \<Rightarrow>
          (case condition ob of
             Some c \<Rightarrow> Inr \<lparr>cond_preserve = o_comments out, cond_extract = c\<rparr>
           | None \<Rightarrow> Inr \<lparr>cond_preserve = SBool False, cond_extract = o_comments out\<rparr>)
      | EBool b \<Rightarrow> Inr \<lparr>cond_preserve = SBool False, cond_extract = o_comments out\<rparr>
      | EUndefined \<Rightarrow> Inl (TypeError ''Cannot convert undefined or null to object''))"
  by (simp add: choose_conditions_def string_or_RegExp_def hasOwnProperty_condition_def
        condition_of_def spec_of_extract_def split: extract_spec.splits option.splits)

text \<open>
  C5. With the scope of the module, in which \<^verbatim>\<open>options\<close> is not bound, the choice of the
  two conditions raises a ReferenceError for every value of \<^verbatim>\<open>extractComments\<close> and every
  output object, and so does \<^verbatim>\<open>_processExtractComments\<close>: no pair of conditions is
  resolved. The last conjunct is the run with \<^verbatim>\<open>extractComments: "all"\<close>.
\<close>

theorem conditions_read_unbound_options:
  "choose_conditions module_scope opts out = Inl (ReferenceError ''options'')
   \<and> processExtractComments l module_scope opts out = Inl (ReferenceError ''options'')
   \<and> processExtractComments example_lib (globals example_world)
        (example_options\<lparr>extractComments := EStr ''all''\<rparr>)
        (setup_output (example_options\<lparr>extractComments := EStr ''all''\<rparr>))
      = Inl (ReferenceError ''options'')"
  by (simp add: processExtractComments_def choose_conditions_def module_scope_def
        example_world_def)

text \<open>
  What the pipeline then does with a file when extraction is enabled: the file is recorded
  as an error and its asset stays as it was.
\<close>

lemma compile_example_extract:
  "errors (snd (compile example_lib (example_options\<lparr>extractComments := EStr ''all''\<rparr>)
             [\<lparr>files = [''a.js'']\<rparr>] example_world))
     = [''a.js from UglifyJs'' @ NL @ ''ReferenceError: options is not defined'']
   \<and> assets (snd (compile example_lib (example_options\<lparr>extractComments := EStr ''all''\<rparr>)
             [\<lparr>files = [''a.js'']\<rparr>] example_world)) = assets example_world"
  by (simp add: compile_def candidate_files_def process_one_def processExeption_def
       push_error_def example_defs method_defs processExtractComments_def choose_conditions_def
       string_or_RegExp_def ReferenceError_def truthy_str_def str_str_def)

subsection \<open>Source resolution\<close>

text \<open>
  C8. With the option \<^verbatim>\<open>sourceMap\<close> false, \<^verbatim>\<open>_processSourceMap\<close> calls
  \<^verbatim>\<open>asset.source()\<close> and then, all the same, \<^verbatim>\<open>asset.sourceAndMap()\<close> (or
  \<^verbatim>\<open>asset.map()\<close> and \<^verbatim>\<open>asset.source()\<close> when the asset has no \<^verbatim>\<open>sourceAndMap\<close>) and
  the constructor of \<^verbatim>\<open>SourceMapConsumer\<close> on the map it got. The second conjunct is the
  run on a \<^verbatim>\<open>RawSource\<close>.
\<close>

theorem sourceMap_false_still_reads_map:
  "trace (snd (processSourceMap l (opts\<lparr>sourceMap := False\<rparr>) a w))
     = trace w @ [Call_source a]
       @ (if has_sourceAndMap (content (heap w a)) then [Call_sourceAndMap a]
          else [Call_map a, Call_source a])
       @ [New_SourceMapConsumer (source_map l (content (heap w a)))]
   \<and> trace (snd (processSourceMap example_lib (example_options\<lparr>sourceMap := False\<rparr>) 0
                   example_world))
     = [Call_source 0, Call_sourceAndMap 0, New_SourceMapConsumer None]"
  by (simp add: processSourceMap_def log_def Let_def example_defs has_sourceAndMap_def
        source_map_def split: sum.splits)

subsection \<open>The messages of the handler\<close>

text \<open>
  C4. For a failure with a line and a consumer that yields a source, the handler raises a
  ReferenceError for \<^verbatim>\<open>requestShortener\<close> and records no error. The second conjunct is
  the failure at line 3, column 5 with a map entry to \<^verbatim>\<open>original.js:10,2\<close>.
\<close>

theorem known_source_reads_unbound_requestShortener:
  "processExeption (err\<lparr>e_line := Some (Suc k)\<rparr>) file
       (Some (\<lambda>ln cl. pos\<lparr>op_source := Some (ch # rest)\<rparr>))
       (w\<lparr>globals := module_scope\<rparr>)
     = (Some (ReferenceError ''requestShortener''), w\<lparr>globals := module_scope\<rparr>)
   \<and> processExeption parse_failure ''a.js'' (Some example_consumer) example_world
     = (Some (ReferenceError ''requestShortener''), example_world)"
  by (simp add: processExeption_def truthy_str_def module_scope_def parse_failure_def
        example_consumer_def example_world_def)

text \<open>
  The other three shapes of message, which the handler does build: the generated position
  alone when no source is known, the \<^verbatim>\<open>msg\<close> when there is no line, the stack otherwise.
\<close>

lemma processExeption_messages:
  "processExeption parse_failure ''a.js'' None w
     = (None, push_error (''a.js from UglifyJs'' @ NL @ ''Unexpected token [a.js:3,5]'') w)
   \<and> processExeption parse_failure ''a.js''
        (Some (\<lambda>ln cl. \<lparr>op_source = None, op_line = None, op_column = None\<rparr>)) w
     = (None, push_error (''a.js from UglifyJs'' @ NL @ ''Unexpected token [a.js:3,5]'') w)
   \<and> processExeption (parse_failure\<lparr>e_line := None, e_msg := Some ''bad option''\<rparr>) ''a.js'' sm w
     = (None, push_error (''a.js from UglifyJs'' @ NL @ ''bad option'') w)
   \<and> processExeption (parse_failure\<lparr>e_line := None\<rparr>) ''a.js'' sm w
     = (None, push_error (''a.js from UglifyJs'' @ NL @ ''SyntaxError: Unexpected token'') w)"
  by (simp add: processExeption_def truthy_str_def str_str_def str_num_def parse_failure_def
        show_nat.simps digit_def)


subsection \<open>The sidecar and the banner\<close>

text \<open>
  With an explicit name and the banner disabled the method does accumulate: two writes in
  a row to a new name leave one asset there, whose text is the two batches with an empty
  line between them.
\<close>

lemma sidecar_accumulates:
  assumes "name \<noteq> []" and "assets w name = None"
  shows "\<exists>w1 w2 a.
           writeExtractedComments
             (opts\<lparr>extractComments :=
                EObj \<lparr>condition = c, filename = FStr name, banner = BFalse\<rparr>\<rparr>)
             cs1 w = (None, w1)
         \<and> writeExtractedComments
             (opts\<lparr>extractComments :=
                EObj \<lparr>condition = c, filename = FStr name, banner = BFalse\<rparr>\<rparr>)
             cs2 w1 = (None, w2)
         \<and> assets w2 name = Some a
         \<and> source_text (content (heap w2 a))
             = join (NL @ NL) cs1 @ NL @ NL @ join (NL @ NL) cs2 @ NL"
  using assms
  by (simp add: writeExtractedComments_def filename_of_def resolve_commentsFile_def
        put_comments_def add_banner_def banner_of_def new_object_def)

text \<open>
  C2. With the scope of the module, in which \<^verbatim>\<open>file\<close> is not bound,
  \<^verbatim>\<open>_writeExtractedComments\<close> raises a ReferenceError and writes nothing whenever the
  name of the sidecar is not an explicit string: when \<^verbatim>\<open>extractComments\<close> is
  \<^verbatim>\<open>true\<close>, when its \<^verbatim>\<open>filename\<close> is missing, and when its \<^verbatim>\<open>filename\<close> is a function.
  The last conjunct is the write of one comment with \<^verbatim>\<open>extractComments: true\<close>.
\<close>

theorem sidecar_name_reads_unbound_file:
  "writeExtractedComments (opts\<lparr>extractComments := EBool True\<rparr>) cs
       (w\<lparr>globals := module_scope\<rparr>)
     = (Some (ReferenceError ''file''), w\<lparr>globals := module_scope\<rparr>)
   \<and> writeExtractedComments
        (opts\<lparr>extractComments := EObj \<lparr>condition = c, filename = FUndefined, banner = b\<rparr>\<rparr>)
        cs (w\<lparr>globals := module_scope\<rparr>)
     = (Some (ReferenceError ''file''), w\<lparr>globals := module_scope\<rparr>)
   \<and> writeExtractedComments
        (opts\<lparr>extractComments := EObj \<lparr>condition = c, filename = FFun f, banner = b\<rparr>\<rparr>)
        cs (w\<lparr>globals := module_scope\<rparr>)
     = (Some (ReferenceError ''file''), w\<lparr>globals := module_scope\<rparr>)
   \<and> writeExtractedComments (example_options\<lparr>extractComments := EBool True\<rparr>)
        [''//@license MIT''] example_world
     = (Some (ReferenceError ''file''), example_world)"
  by (simp add: writeExtractedComments_def filename_of_def resolve_commentsFile_def
        module_scope_def example_world_def)

text \<open>
  C9. With the scope of the module, in which \<^verbatim>\<open>outputSource\<close> is not bound, the banner
  step raises a ReferenceError whenever the banner is not disabled and not empty, and
  wraps nothing; the second conjunct is the write of one comment with an explicit sidecar
  name and no banner option, which leaves the sidecar written and raises. And were
  \<^verbatim>\<open>outputSource\<close> bound, the text put before the content would end with a double quote
  after the newline (third conjunct).
\<close>

theorem banner_writes_unbound_outputSource:
  "add_banner
       (opts\<lparr>extractComments := EObj \<lparr>condition = c, filename = fn, banner = BUndefined\<rparr>\<rparr>)
       commentsFile (w\<lparr>globals := module_scope\<rparr>)
     = (Some (ReferenceError ''outputSource''), w\<lparr>globals := module_scope\<rparr>)
   \<and> writeExtractedComments
       (example_options\<lparr>extractComments :=
          EObj \<lparr>condition = None, filename = FStr ''a.js.LICENSE'', banner = BUndefined\<rparr>\<rparr>)
       [''//@license MIT''] example_world
     = (Some (ReferenceError ''outputSource''),
        example_world
          \<lparr>heap := (heap example_world)
                     (2 := \<lparr>content = RawSource (''//@license MIT'' @ NL),
                            UglifyJsPlugin = None\<rparr>),
           next_addr := 3,
           assets := (assets example_world)(''a.js.LICENSE'' \<mapsto> 2)\<rparr>)
   \<and> (\<exists>a w'. add_banner
              (opts\<lparr>extractComments :=
                 EObj \<lparr>condition = None, filename = fn, banner = BStr ''see x''\<rparr>\<rparr>)
              commentsFile (w\<lparr>globals := module_scope\<lparr>g_outputSource := Some os\<rparr>\<rparr>)
             = (None, w')
            \<and> g_outputSource (globals w') = Some a
            \<and> source_text (content (heap w' a))
                = ''/*! see x */'' @ NL @ [CHR 0x22] @ source_text (content (heap w os)))"
  by (simp add: add_banner_def banner_of_def new_object_def writeExtractedComments_def
        filename_of_def resolve_commentsFile_def put_comments_def example_defs)

end
